theory Spec2Isabelle
  imports Main
begin

section \<open>Data model\<close>

text \<open>
  Times and durations are milliseconds, as natural numbers. An effect of the source is a
  function from the clock at which it starts to its exit, the timestamped events it
  emits and the clock at which it ends.
\<close>

datatype json =
    JNull
  | JBool bool
  | JNumber int
  | JString string
  | JArray "json list"
  | JObject "(string \<times> json) list"

text \<open>
  The failures of the error channel: \<open>FetchError\<close> (effect.ts), the schema's
  \<open>ParseError\<close>, \<open>RetryError\<close> and \<open>UploadThingError\<close> (code and message) of the
  shared package, and \<open>UTReporterError\<close>, the tag \<open>DANGEROUS__uploadFiles\<close> catches.
  A defect is an exception thrown while an effect runs (a \<open>TypeError\<close>) or an error
  turned into a defect by \<open>Effect.die\<close>.
\<close>

datatype error =
    FetchError
  | ParseError
  | RetryError
  | UploadThingError string string
  | UTReporterError

datatype defect = TypeError | Died error

text \<open>How an effect ends: with a value, a failure or a defect; \<open>Never\<close> when it does not end.\<close>

datatype 'a exit = Success 'a | Failure error | Die defect | Never

datatype contentDisposition = Inline | Attachment

text \<open>\<open>PSPResponse\<close> and \<open>MPUResponse\<close>: the fields each adds to \<open>PresignedBase\<close>.\<close>

datatype upload_shape =
    PSP (url: string) (fields: "(string \<times> string) list")
  | MPU (urls: "string list") (uploadId: string) (chunkSize: nat) (chunkCount: nat)

record presigned =
  key :: string
  fileName :: string
  fileUrl :: string
  pollingJwt :: string
  pollingUrl :: string
  contentDisposition :: contentDisposition
  customId :: "string option"
  fileType :: string
  shape :: upload_shape

text \<open>The test \<open>"urls" in presigned\<close>.\<close>

definition has_urls :: "presigned \<Rightarrow> bool" where
  "has_urls p = (case shape p of MPU _ _ _ _ \<Rightarrow> True | PSP _ _ \<Rightarrow> False)"

record local_file =
  f_name :: string
  f_size :: nat

text \<open>\<open>UploadFileResponse\<close>; \<open>serverData\<close> is \<open>None\<close> when \<open>callbackData\<close> is undefined.\<close>

record UploadFileResponse =
  r_name :: string
  r_size :: nat
  r_key :: string
  r_serverData :: "json option"
  r_url :: string

text \<open>
  \<open>UploadFilesOptions\<close>: the files, and whether an \<open>onUploadBegin\<close> callback was
  supplied (its call is an event).
\<close>

record UploadFilesOptions =
  files :: "local_file list"
  onUploadBegin :: bool

datatype event =
    ConsoleError
  | OnUploadBegin string
  | MultipartUpload string
  | PresignedPost string
  | PollRequest string string
  | PresignedRequest
  | LogError

type_synonym 'a effect = "nat \<Rightarrow> 'a exit \<times> (nat \<times> event) list \<times> nat"

text \<open>What a request meets: the fetch fails, the body is not JSON, or it is a JSON value.\<close>

datatype response = FetchFails | BodyNotJson | BodyJson json

section \<open>effect.ts\<close>

subsection \<open>The schedules of the effect library\<close>

text \<open>
  \<open>exponentialBackoff\<close> is built from combinators of the effect library, embedded here as
  the library defines them. A schedule is an initial state and a step function from the
  current time, the input and the state to the new state, the output and the decision.
  Of the interval of a \<open>Continue\<close> only its start is kept: the driver and \<open>compose\<close> read
  nothing else.

  \<open>forever\<close> counts its steps and never ends; \<open>exponential base factor\<close> delays the
  \<open>n\<close>-th step by \<open>base * factor ^ n\<close> and never ends; \<open>spaced\<close> delays every step by the
  same duration; \<open>andThenEither\<close> runs its first schedule until it is done and its second
  from then on; \<open>compose\<close> feeds the output of the first schedule to the second and is
  done when either is; \<open>elapsed\<close> outputs the time since its first step; \<open>whileOutput\<close>
  and \<open>whileInput\<close> end the schedule when the test fails.
\<close>

datatype decision = Done | Continue nat

datatype ('s, 'i, 'o) schedule =
  Schedule (initial: 's) (step: "nat \<Rightarrow> 'i \<Rightarrow> 's \<Rightarrow> 's \<times> 'o \<times> decision")

definition unfold :: "'s \<Rightarrow> ('s \<Rightarrow> 's) \<Rightarrow> ('s, 'i, 's) schedule" where
  "unfold init f = Schedule init (\<lambda>now _ s. (f s, s, Continue now))"

definition forever :: "(nat, 'i, nat) schedule" where
  "forever = unfold 0 Suc"

definition map_schedule :: "('s, 'i, 'o) schedule \<Rightarrow> ('o \<Rightarrow> 'p) \<Rightarrow> ('s, 'i, 'p) schedule" where
  "map_schedule self f =
     Schedule (initial self)
       (\<lambda>now i s. case step self now i s of (s', out, d) \<Rightarrow> (s', f out, d))"

text \<open>
  \<open>Interval.make\<close> on the new start and the end, which \<open>modifyDelay\<close> caps at
  \<open>Number.MAX_SAFE_INTEGER\<close>: an interval that would start after its end is the empty
  interval, whose start is 0.
\<close>

definition interval_start :: "nat \<Rightarrow> nat" where
  "interval_start newStart = (if newStart \<le> 9007199254740991 then newStart else 0)"

definition modifyDelay ::
  "('s, 'i, 'o) schedule \<Rightarrow> ('o \<Rightarrow> nat \<Rightarrow> nat) \<Rightarrow> ('s, 'i, 'o) schedule" where
  "modifyDelay self f =
     Schedule (initial self)
       (\<lambda>now i s. case step self now i s of
            (s', out, Done) \<Rightarrow> (s', out, Done)
          | (s', out, Continue start) \<Rightarrow>
              (s', out, Continue (interval_start (now + f out (start - now)))))"

definition addDelay :: "('s, 'i, 'o) schedule \<Rightarrow> ('o \<Rightarrow> nat) \<Rightarrow> ('s, 'i, 'o) schedule" where
  "addDelay self f = modifyDelay self (\<lambda>out duration. duration + f out)"

definition delayedSchedule :: "('s, 'i, nat) schedule \<Rightarrow> ('s, 'i, nat) schedule" where
  "delayedSchedule self = addDelay self (\<lambda>x. x)"

definition exponential :: "nat \<Rightarrow> nat \<Rightarrow> (nat, 'i, nat) schedule" where
  "exponential base factor = delayedSchedule (map_schedule forever (\<lambda>i. base * factor ^ i))"

definition spaced :: "nat \<Rightarrow> (nat, 'i, nat) schedule" where
  "spaced duration = addDelay forever (\<lambda>_. duration)"

definition andThenEither ::
  "('s, 'i, 'o) schedule \<Rightarrow> ('t, 'i, 'p) schedule \<Rightarrow> ('s \<times> 't \<times> bool, 'i, 'o + 'p) schedule" where
  "andThenEither self that =
     Schedule (initial self, initial that, True)
       (\<lambda>now i (ls, rs, onLeft).
          if onLeft then
            (case step self now i ls of
               (ls', out, Done) \<Rightarrow>
                 (case step that now i rs of (rs', out2, d) \<Rightarrow> ((ls', rs', False), Inr out2, d))
             | (ls', out, Continue start) \<Rightarrow> ((ls', rs, True), Inl out, Continue start))
          else
            (case step that now i rs of (rs', out2, d) \<Rightarrow> ((ls, rs', False), Inr out2, d)))"

definition compose ::
  "('s, 'i, 'o) schedule \<Rightarrow> ('t, 'o, 'p) schedule \<Rightarrow> ('s \<times> 't, 'i, 'p) schedule" where
  "compose self that =
     Schedule (initial self, initial that)
       (\<lambda>now i (ls, rs).
          case step self now i ls of
            (ls', out, Done) \<Rightarrow>
              (case step that now out rs of (rs', out2, _) \<Rightarrow> ((ls', rs'), out2, Done))
          | (ls', out, Continue lstart) \<Rightarrow>
              (case step that now out rs of
                 (rs', out2, Done) \<Rightarrow> ((ls', rs'), out2, Done)
               | (rs', out2, Continue rstart) \<Rightarrow>
                   ((ls', rs'), out2, Continue (if lstart < rstart then rstart else lstart))))"

definition elapsed :: "(nat option, 'i, nat) schedule" where
  "elapsed =
     Schedule None
       (\<lambda>now _ s. case s of
            None \<Rightarrow> (Some now, 0, Continue now)
          | Some start \<Rightarrow> (Some start, now - start, Continue now))"

definition check ::
  "('s, 'i, 'o) schedule \<Rightarrow> ('i \<Rightarrow> 'o \<Rightarrow> bool) \<Rightarrow> ('s, 'i, 'o) schedule" where
  "check self test =
     Schedule (initial self)
       (\<lambda>now i s. case step self now i s of
            (s', out, Done) \<Rightarrow> (s', out, Done)
          | (s', out, Continue start) \<Rightarrow>
              if test i out then (s', out, Continue start) else (s', out, Done))"

definition whileOutput :: "('s, 'i, 'o) schedule \<Rightarrow> ('o \<Rightarrow> bool) \<Rightarrow> ('s, 'i, 'o) schedule" where
  "whileOutput self f = check self (\<lambda>_ out. f out)"

definition whileInput :: "('s, 'i, 'o) schedule \<Rightarrow> ('i \<Rightarrow> bool) \<Rightarrow> ('s, 'i, 'o) schedule" where
  "whileInput self f = check self (\<lambda>i _. f i)"

subsection \<open>exponentialBackoff\<close>

type_synonym backoff_state = "(nat \<times> nat \<times> bool) \<times> nat option"

definition exponentialBackoff :: "(backoff_state, 'i, nat) schedule" where
  "exponentialBackoff =
     whileOutput
       (compose (andThenEither (exponential 10 4) (spaced 1000)) elapsed)
       (\<lambda>d. d \<le> 60000)"

subsection \<open>fetchEffJson\<close>

text \<open>
  A JavaScript value passed where \<open>fetchEffJson\<close> expects a schema or a request: a
  string, a \<open>URL\<close> object or a schema (its decoder).
\<close>

datatype 'a js_value = JsString string | JsUrl string | JsSchema "json \<Rightarrow> error + 'a"

text \<open>
  \<open>Schema.decode(schema)\<close> reads the schema's AST when it is called: on a value that is
  no schema it throws a \<open>TypeError\<close>.
\<close>

definition Schema_decode :: "'a js_value \<Rightarrow> defect + (json \<Rightarrow> error + 'a)" where
  "Schema_decode schema =
     (case schema of JsSchema decode \<Rightarrow> Inr decode | _ \<Rightarrow> Inl TypeError)"

text \<open>The request \<open>fetch\<close> sends: its first argument as a string.\<close>

definition request_url :: "'b js_value \<Rightarrow> string" where
  "request_url input =
     (case input of JsString s \<Rightarrow> s | JsUrl s \<Rightarrow> s | JsSchema _ \<Rightarrow> ''[object Object]'')"

text \<open>
  \<open>fetchEffJson schema input init\<close>, its parameters in the order of the declaration. The
  call builds the pipeline, and \<open>Schema.decode(schema)\<close> is an argument of that pipeline:
  it is evaluated, and may throw, before any request is sent. The effect that is built
  fetches \<open>input\<close> and reads the body as JSON, each failing with a \<open>FetchError\<close>, and
  decodes the JSON value; \<open>resp\<close> is what its request meets.
\<close>

definition fetchEffJson ::
  "'a js_value \<Rightarrow> 'b js_value \<Rightarrow> defect + (response \<Rightarrow> error + 'a)" where
  "fetchEffJson schema input =
     (case Schema_decode schema of
        Inl thrown \<Rightarrow> Inl thrown
      | Inr decode \<Rightarrow>
          Inr (\<lambda>resp. case resp of
                 FetchFails \<Rightarrow> Inl FetchError
               | BodyNotJson \<Rightarrow> Inl FetchError
               | BodyJson j \<Rightarrow> decode j))"

section \<open>The upload client\<close>

subsection \<open>The polling schema\<close>

datatype PollingResponse = StatusDone "json option" | StatusStillWaiting

text \<open>
  The union of the struct \<open>{status: "done", callbackData: any}\<close> and the struct
  \<open>{status: "still waiting"}\<close>. \<open>callbackData\<close> is undefined when the key is absent;
  other keys are ignored; of a key written twice \<open>JSON.parse\<close> keeps the last; anything
  else is a \<open>ParseError\<close>.
\<close>

definition PollingResponse :: "json \<Rightarrow> error + PollingResponse" where
  "PollingResponse j =
     (case j of
        JObject kvs \<Rightarrow>
          (case map_of (rev kvs) ''status'' of
             Some (JString s) \<Rightarrow>
               if s = ''done'' then Inr (StatusDone (map_of (rev kvs) ''callbackData''))
               else if s = ''still waiting'' then Inr StatusStillWaiting
               else Inl ParseError
           | _ \<Rightarrow> Inl ParseError)
      | _ \<Rightarrow> Inl ParseError)"

text \<open>
  The step after \<open>fetchEffJson\<close> in the polling effect: \<open>callbackData\<close> on \<open>"done"\<close> and
  a \<open>RetryError\<close> otherwise.
\<close>

definition status_check :: "error + PollingResponse \<Rightarrow> error + json option" where
  "status_check res =
     (case res of
        Inl e \<Rightarrow> Inl e
      | Inr (StatusDone callbackData) \<Rightarrow> Inr callbackData
      | Inr StatusStillWaiting \<Rightarrow> Inl RetryError)"

subsection \<open>Effect.retry\<close>

text \<open>
  \<open>Effect.retry\<close> with \<open>while\<close> and \<open>schedule\<close>: the schedule, checked on its input, the
  error of the failed attempt.
\<close>

definition retry_policy :: "(backoff_state, error, nat) schedule" where
  "retry_policy = whileInput exponentialBackoff (\<lambda>res. res = RetryError)"

text \<open>
  The retry loop over the schedule's driver. \<open>attempts n\<close> is the latency and the outcome
  of the \<open>n\<close>-th attempt. On a failure the schedule is stepped at the current time;
  \<open>Done\<close> fails with the error of the attempt, \<open>Continue start\<close> sleeps until \<open>start\<close> and
  runs the effect again. The result comes with the times at which the attempts start and
  the final clock; \<open>None\<close> is a loop that does not end.
\<close>

partial_function (option) retry ::
  "('s, error, 'o) schedule \<Rightarrow> (nat \<Rightarrow> nat \<times> (error + 'a)) \<Rightarrow> nat \<Rightarrow> 's \<Rightarrow> nat
     \<Rightarrow> ((error + 'a) \<times> nat list \<times> nat) option" where
  "retry policy attempts n s now =
     (case snd (attempts n) of
        Inr a \<Rightarrow> Some (Inr a, [now], now + fst (attempts n))
      | Inl e \<Rightarrow>
          (case step policy (now + fst (attempts n)) e s of
             (s', out, Done) \<Rightarrow> Some (Inl e, [now], now + fst (attempts n))
           | (s', out, Continue start) \<Rightarrow>
               Option.bind
                 (retry policy attempts (Suc n) s'
                    (now + fst (attempts n) + (start - (now + fst (attempts n)))))
                 (\<lambda>(r, ts, fin). Some (r, now # ts, fin))))"

subsection \<open>uploadFile\<close>

definition andThen :: "'a effect \<Rightarrow> ('a \<Rightarrow> 'b effect) \<Rightarrow> 'b effect" where
  "andThen m f now =
     (case m now of
        (Success x, evs, t) \<Rightarrow> (case f x t of (r, evs', t') \<Rightarrow> (r, evs @ evs', t'))
      | (Failure e, evs, t) \<Rightarrow> (Failure e, evs, t)
      | (Die d, evs, t) \<Rightarrow> (Die d, evs, t)
      | (Never, evs, t) \<Rightarrow> (Never, evs, t))"

definition sleep :: "nat \<Rightarrow> unit effect" where
  "sleep ms now = (Success (), [], now + ms)"

text \<open>
  What one file's pipeline meets: how long its transport takes and whether it fails, and
  the latency and answer of each request to its polling URL.
\<close>

record pipeline_world =
  transport_time :: nat
  transport_result :: "error option"
  poll_answers :: "nat \<Rightarrow> nat \<times> response"

text \<open>
  Modelled from the spec: \<open>uploadMultipartWithProgress\<close> and
  \<open>uploadPresignedPostWithProgress\<close> (internal/multi-part and internal/presigned-post) are
  not among the sources. Each transport is an event at its start, takes the world's
  transport time and succeeds or fails with the world's error.
\<close>

definition uploadMultipartWithProgress ::
  "local_file \<Rightarrow> presigned \<Rightarrow> pipeline_world \<Rightarrow> unit effect" where
  "uploadMultipartWithProgress file presigned w now =
     ((case transport_result w of Some e \<Rightarrow> Failure e | None \<Rightarrow> Success ()),
      [(now, MultipartUpload (key presigned))], now + transport_time w)"

definition uploadPresignedPostWithProgress ::
  "local_file \<Rightarrow> presigned \<Rightarrow> pipeline_world \<Rightarrow> unit effect" where
  "uploadPresignedPostWithProgress file presigned w now =
     ((case transport_result w of Some e \<Rightarrow> Failure e | None \<Rightarrow> Success ()),
      [(now, PresignedPost (key presigned))], now + transport_time w)"

text \<open>
  The polling effect of \<open>uploadFile\<close>. The call is written
  \<open>fetchEffJson(presigned.pollingUrl, PollingResponse, {headers})\<close> and \<open>fetchEffJson\<close>
  declares \<open>(schema, input, init)\<close>: by position the polling URL is the schema and the
  polling schema is the request. An exception thrown while the effect is built ends the
  generator of \<open>Effect.gen\<close> with a defect. Otherwise the attempts are retried, every
  request being an event.
\<close>

definition pollServerData :: "presigned \<Rightarrow> pipeline_world \<Rightarrow> json option effect" where
  "pollServerData presigned w now =
     (case fetchEffJson (JsString (pollingUrl presigned)) (JsSchema PollingResponse) of
        Inl thrown \<Rightarrow> (Die thrown, [], now)
      | Inr attempt \<Rightarrow>
          (case retry retry_policy
                  (\<lambda>n. (fst (poll_answers w n), status_check (attempt (snd (poll_answers w n)))))
                  0 (initial retry_policy) now of
             None \<Rightarrow> (Never, [], now)
           | Some (r, ts, fin) \<Rightarrow>
               ((case r of Inl e \<Rightarrow> Failure e | Inr serverData \<Rightarrow> Success serverData),
                map (\<lambda>t. (t, PollRequest (request_url (JsSchema PollingResponse))
                               (pollingJwt presigned))) ts,
                fin)))"

definition uploadFile ::
  "string \<Rightarrow> UploadFilesOptions \<Rightarrow> presigned \<Rightarrow> pipeline_world \<Rightarrow> UploadFileResponse effect" where
  "uploadFile slug opts presigned w now =
     (case find (\<lambda>f. f_name f = fileName presigned) (files opts) of
        None \<Rightarrow>
          (Failure (UploadThingError ''NOT_FOUND'' ''No file found for presigned URL''),
           [(now, ConsoleError)], now)
      | Some file \<Rightarrow>
          andThen
            (\<lambda>t. (Success (),
                  (if onUploadBegin opts then [(t, OnUploadBegin (f_name file))] else []), t))
            (\<lambda>_. andThen
               (if has_urls presigned then uploadMultipartWithProgress file presigned w
                else uploadPresignedPostWithProgress file presigned w)
            (\<lambda>_. andThen (sleep 500)
            (\<lambda>_. andThen (pollServerData presigned w)
            (\<lambda>serverData t.
               (Success \<lparr>r_name = f_name file, r_size = f_size file, r_key = key presigned,
                     r_serverData = serverData, r_url = ''https://utfs.io/f/'' @ key presigned\<rparr>,
                [], t))))) now)"

subsection \<open>DANGEROUS__uploadFiles\<close>

text \<open>
  \<open>Effect.all\<close> without options (no \<open>concurrency\<close>): one effect after the other, in the
  order of the list, stopping at the first that does not succeed.
\<close>

fun Effect_all :: "'a effect list \<Rightarrow> 'a list effect" where
  "Effect_all [] = (\<lambda>now. (Success [], [], now))"
| "Effect_all (e # es) =
     andThen e (\<lambda>x. andThen (Effect_all es) (\<lambda>xs t. (Success (x # xs), [], t)))"

text \<open>
  What the call meets: the latency and the answer of the request for the presigned
  descriptors, and the world of the pipeline of each descriptor, by position.
\<close>

record upload_world =
  presigneds_latency :: nat
  presigneds_response :: response
  pipelines :: "nat \<Rightarrow> pipeline_world"

text \<open>
  \<open>DANGEROUS__uploadFiles\<close>, up to the promise of \<open>Effect.runPromise\<close>. The schema
  \<open>uploadThingResponseSchema\<close> (internal/shared-schemas) is not among the sources and is a
  parameter; \<open>createAPIRequestUrl\<close> (internal/ut-reporter) is not either, and the \<open>URL\<close>
  object it returns is written with the slug. The call is written
  \<open>fetchEffJson(createAPIRequestUrl(...), uploadThingResponseSchema, {...})\<close>: by position
  the \<open>URL\<close> object is the schema and the schema is the request. A \<open>UTReporterError\<close>
  becomes a defect, and every failure or defect is logged.
\<close>

definition DANGEROUS__uploadFiles ::
  "(json \<Rightarrow> error + presigned list) \<Rightarrow> string \<Rightarrow> UploadFilesOptions \<Rightarrow> upload_world \<Rightarrow> nat
     \<Rightarrow> UploadFileResponse list exit \<times> (nat \<times> event) list \<times> nat" where
  "DANGEROUS__uploadFiles uploadThingResponseSchema endpoint opts world now =
     (case (case fetchEffJson (JsUrl endpoint) (JsSchema uploadThingResponseSchema) of
              Inl thrown \<Rightarrow> (Die thrown, [], now)
            | Inr request \<Rightarrow>
                andThen
                  (\<lambda>t. ((case request (presigneds_response world) of
                            Inl e \<Rightarrow> Failure e | Inr presigneds \<Rightarrow> Success presigneds),
                         [(t, PresignedRequest)], t + presigneds_latency world))
                  (\<lambda>presigneds.
                     Effect_all
                       (map (\<lambda>(i, presigned). uploadFile endpoint opts presigned (pipelines world i))
                          (enumerate 0 presigneds)))
                  now) of
        (Success rs, evs, t) \<Rightarrow> (Success rs, evs, t)
      | (Failure e, evs, t) \<Rightarrow>
          ((if e = UTReporterError then Die (Died e) else Failure e), evs @ [(t, LogError)], t)
      | (Die d, evs, t) \<Rightarrow> (Die d, evs @ [(t, LogError)], t)
      | (Never, evs, t) \<Rightarrow> (Never, evs, t))"

section \<open>Traces\<close>

text \<open>The times of the poll requests among the events of a trace.\<close>

fun is_poll :: "event \<Rightarrow> bool" where
  "is_poll (PollRequest _ _) = True"
| "is_poll _ = False"

definition poll_requests :: "(nat \<times> event) list \<Rightarrow> nat list" where
  "poll_requests evs = map fst (filter (\<lambda>(t, e). is_poll e) evs)"

section \<open>Example worlds\<close>

definition still_waiting :: json where
  "still_waiting = JObject [(''status'', JString ''still waiting'')]"

definition done_with :: "json \<Rightarrow> json" where
  "done_with d = JObject [(''status'', JString ''done''), (''callbackData'', d)]"

definition photo :: local_file where
  "photo = \<lparr>f_name = ''a.png'', f_size = 3\<rparr>"

definition photo_presigned :: presigned where
  "photo_presigned =
     \<lparr>key = ''k1'', fileName = ''a.png'', fileUrl = ''https://cdn.example/a'',
      pollingJwt = ''jwt'', pollingUrl = ''https://poll.example/k1'',
      contentDisposition = Inline, customId = None, fileType = ''image'',
      shape = PSP ''https://s3.example/'' []\<rparr>"

definition photo_opts :: UploadFilesOptions where
  "photo_opts = \<lparr>files = [photo], onUploadBegin = True\<rparr>"

text \<open>
  A world whose transport succeeds at once and whose polling URL answers at once,
  \<open>still waiting\<close> to the first \<open>k\<close> requests and \<open>done\<close> after.
\<close>

definition done_after :: "nat \<Rightarrow> pipeline_world" where
  "done_after k =
     \<lparr>transport_time = 0, transport_result = None,
      poll_answers = (\<lambda>n. (0, BodyJson (if n < k then still_waiting else done_with JNull)))\<rparr>"

definition never_done :: pipeline_world where
  "never_done = \<lparr>transport_time = 0, transport_result = None,
                  poll_answers = (\<lambda>n. (0, BodyJson still_waiting))\<rparr>"

text \<open>A polling URL that answers with a status that is neither of the two literals.\<close>

definition garbled :: pipeline_world where
  "garbled =
     \<lparr>transport_time = 0, transport_result = None,
      poll_answers = (\<lambda>n. (0, BodyJson (JObject [(''status'', JString ''pending'')])))\<rparr>"


definition memo :: local_file where
  "memo = \<lparr>f_name = ''b.txt'', f_size = 5\<rparr>"

definition memo_presigned :: presigned where
  "memo_presigned =
     \<lparr>key = ''k2'', fileName = ''b.txt'', fileUrl = ''https://cdn.example/b'',
      pollingJwt = ''jwt'', pollingUrl = ''https://poll.example/k2'',
      contentDisposition = Attachment, customId = None, fileType = ''text'',
      shape = MPU [''https://s3.example/1''] ''u1'' 5 1\<rparr>"

definition stray_presigned :: presigned where
  "stray_presigned = memo_presigned\<lparr>key := ''k3'', fileName := ''c.bin''\<rparr>"

definition both_opts :: UploadFilesOptions where
  "both_opts = \<lparr>files = [photo, memo], onUploadBegin = True\<rparr>"

definition upload_failed :: error where
  "upload_failed = UploadThingError ''UPLOAD_FAILED'' ''Failed to upload file''"

definition transport_down :: pipeline_world where
  "transport_down = \<lparr>transport_time = 0, transport_result = Some upload_failed,
                       poll_answers = (\<lambda>n. (0, BodyJson still_waiting))\<rparr>"

text \<open>
  The request for the descriptors is answered at once; the transport of the \<open>down\<close>-th
  descriptor fails, and the others meet \<open>done_after 0\<close>. The schema \<open>descriptors ps\<close>
  decodes every answer to the descriptors \<open>ps\<close>.
\<close>

definition batch_world :: "nat \<Rightarrow> upload_world" where
  "batch_world down =
     \<lparr>presigneds_latency = 0, presigneds_response = BodyJson JNull,
      pipelines = (\<lambda>i. if i = down then transport_down else done_after 0)\<rparr>"

definition descriptors :: "presigned list \<Rightarrow> json \<Rightarrow> error + presigned list" where
  "descriptors ps j = Inr ps"

section \<open>The runs of the code\<close>

text \<open>
  Both calls of \<open>fetchEffJson\<close> pass the request where the schema is expected: the effect
  is never built.
\<close>

lemma fetchEffJson_no_schema:
  "fetchEffJson (JsString u) input = Inl TypeError"
  "fetchEffJson (JsUrl u) input = Inl TypeError"
  by (simp_all add: fetchEffJson_def Schema_decode_def)

lemma pollServerData_dies: "pollServerData presigned w now = (Die TypeError, [], now)"
  by (simp add: pollServerData_def fetchEffJson_no_schema)

lemma uploadFile_not_found:
  assumes "find (\<lambda>f. f_name f = fileName presigned) (files opts) = None"
  shows "uploadFile slug opts presigned w now =
    (Failure (UploadThingError ''NOT_FOUND'' ''No file found for presigned URL''),
     [(now, ConsoleError)], now)"
  using assms by (simp add: uploadFile_def)

lemma uploadFile_found:
  assumes "find (\<lambda>f. f_name f = fileName presigned) (files opts) = Some file"
  shows "uploadFile slug opts presigned w now =
     (case transport_result w of
        Some e \<Rightarrow> Failure e
      | None \<Rightarrow> Die TypeError,
      (if onUploadBegin opts then [(now, OnUploadBegin (f_name file))] else []) @
      [(now, if has_urls presigned then MultipartUpload (key presigned)
             else PresignedPost (key presigned))],
      case transport_result w of
        Some e \<Rightarrow> now + transport_time w
      | None \<Rightarrow> now + transport_time w + 500)"
  using assms
  by (simp add: uploadFile_def andThen_def sleep_def pollServerData_dies
      uploadMultipartWithProgress_def uploadPresignedPostWithProgress_def
      split: option.splits)

lemma uploadFile_never_succeeds: "fst (uploadFile slug opts presigned w now) \<noteq> Success r"
proof (cases "find (\<lambda>f. f_name f = fileName presigned) (files opts)")
  case None
  then show ?thesis by (simp add: uploadFile_not_found)
next
  case (Some lf)
  then show ?thesis by (simp add: uploadFile_found split: option.splits)
qed

lemma DANGEROUS__uploadFiles_dies:
  "DANGEROUS__uploadFiles schema endpoint opts world now = (Die TypeError, [(now, LogError)], now)"
  by (simp add: DANGEROUS__uploadFiles_def fetchEffJson_no_schema)




lemma photo_found:
  "find (\<lambda>f. f_name f = fileName photo_presigned) (files photo_opts) = Some photo"
  by (simp add: photo_opts_def photo_presigned_def photo_def)

lemma found_in_both:
  "find (\<lambda>f. f_name f = fileName photo_presigned) (files both_opts) = Some photo"
  "find (\<lambda>f. f_name f = fileName memo_presigned) (files both_opts) = Some memo"
  "find (\<lambda>f. f_name f = fileName stray_presigned) (files both_opts) = None"
  by (simp_all add: both_opts_def photo_presigned_def memo_presigned_def stray_presigned_def
      photo_def memo_def)

lemma photo_run:
  assumes "transport_result w = None"
  shows "uploadFile ''ep'' photo_opts photo_presigned w now =
    (Die TypeError, [(now, OnUploadBegin ''a.png''), (now, PresignedPost ''k1'')],
     now + transport_time w + 500)"
  using assms
  by (simp add: uploadFile_found [OF photo_found])
    (simp add: photo_opts_def photo_def photo_presigned_def has_urls_def)

section \<open>The steps of the backoff schedule\<close>

lemma step_exponential:
  "step (exponential b f) now i k =
     (Suc k, b * f ^ k, Continue (interval_start (now + b * f ^ k)))"
  by (simp add: exponential_def delayedSchedule_def addDelay_def modifyDelay_def
      map_schedule_def forever_def unfold_def)

lemma step_spaced:
  "step (spaced d) now i k = (Suc k, k, Continue (interval_start (now + d)))"
  by (simp add: spaced_def addDelay_def modifyDelay_def forever_def unfold_def)

lemma step_retry_policy:
  "step retry_policy now e ((k, m, b), so) =
     ((((if b then Suc k else k), (if b then m else Suc m), b),
       (case so of None \<Rightarrow> Some now | Some a \<Rightarrow> Some a)),
      (case so of None \<Rightarrow> 0 | Some a \<Rightarrow> now - a),
      (if (case so of None \<Rightarrow> True | Some a \<Rightarrow> now - a \<le> 60000) \<and> e = RetryError
       then Continue
         (if interval_start (now + (if b then 10 * 4 ^ k else 1000)) < now then now
          else interval_start (now + (if b then 10 * 4 ^ k else 1000)))
       else Done))"
  by (simp add: retry_policy_def whileInput_def exponentialBackoff_def whileOutput_def check_def
      compose_def andThenEither_def elapsed_def step_exponential step_spaced split: option.splits)

lemma initial_retry_policy: "initial retry_policy = ((0, 0, True), None)"
  by (simp add: retry_policy_def whileInput_def exponentialBackoff_def whileOutput_def check_def
      compose_def andThenEither_def elapsed_def exponential_def spaced_def delayedSchedule_def
      addDelay_def modifyDelay_def map_schedule_def forever_def unfold_def)

text \<open>One round of the retry loop when every attempt fails at once with a \<open>RetryError\<close>.\<close>

lemma retry_failing_at_once:
  "retry retry_policy (\<lambda>n. (0, Inl RetryError)) n ((k, m, True), so) now =
     (if (case so of None \<Rightarrow> True | Some a \<Rightarrow> now - a \<le> 60000)
      then Option.bind
        (retry retry_policy (\<lambda>n. (0, Inl RetryError)) (Suc n)
           ((Suc k, m, True), Some (case so of None \<Rightarrow> now | Some a \<Rightarrow> a))
           (now + ((if interval_start (now + 10 * 4 ^ k) < now then now
                    else interval_start (now + 10 * 4 ^ k)) - now)))
        (\<lambda>(r, ts, fin). Some (r, now # ts, fin))
      else Some (Inl RetryError, [now], now))"
  by (subst retry.simps) (simp add: step_retry_policy split: option.splits)

section \<open>The claims\<close>

text \<open>
  C1. The code does not do what the claim says. When the polling URL would answer \<open>done\<close>
  to the first request (\<open>k = 0\<close>), the pipeline sleeps its 500 ms and then dies with a
  \<open>TypeError\<close> while it builds the poll request: it issues no poll request, where the
  claim has one, and returns no result to carry the \<open>callbackData\<close>.
\<close>

theorem poll_until_done_dies:
  "uploadFile ''ep'' photo_opts photo_presigned (done_after 0) 0 =
     (Die TypeError, [(0, OnUploadBegin ''a.png''), (0, PresignedPost ''k1'')], 500) \<and>
   poll_requests (fst (snd (uploadFile ''ep'' photo_opts photo_presigned (done_after 0) 0))) = []"
  by (simp add: photo_run done_after_def poll_requests_def)

text \<open>
  C2. The code does not do what the claim says. When the polling URL would answer
  \<open>still waiting\<close> for ever, the upload does not fail with a timeout error once 60000 ms
  of polling have passed: it dies with a \<open>TypeError\<close> 500 ms after the transport, before
  its first poll request.
\<close>

theorem poll_timeout_dies:
  "fst (uploadFile ''ep'' photo_opts photo_presigned never_done 0) = Die TypeError \<and>
   snd (snd (uploadFile ''ep'' photo_opts photo_presigned never_done 0)) = 500 \<and>
   poll_requests (fst (snd (uploadFile ''ep'' photo_opts photo_presigned never_done 0))) = []"
  by (simp add: photo_run never_done_def poll_requests_def)

text \<open>
  C3. The code does not do what the claim says. For two files whose transports succeed
  and whose polling URLs would answer \<open>done\<close> at once, the call returns no list of
  results: it dies with a \<open>TypeError\<close> while it builds the request for the descriptors,
  before any request and before any pipeline; the only event is the logging of the
  defect. No pipeline, run on its own, ever succeeds either.
\<close>

theorem batch_dies:
  "DANGEROUS__uploadFiles (descriptors [photo_presigned, memo_presigned]) ''ep'' both_opts
     (batch_world 2) 0 = (Die TypeError, [(0, LogError)], 0) \<and>
   (\<forall>r. fst (uploadFile ''ep'' both_opts photo_presigned (done_after 0) 0) \<noteq> Success r) \<and>
   (\<forall>r. fst (uploadFile ''ep'' both_opts memo_presigned (done_after 0) 500) \<noteq> Success r)"
  by (simp add: DANGEROUS__uploadFiles_dies uploadFile_never_succeeds)

text \<open>
  C4. The code does not do what the claim says. Under \<open>Effect.retry\<close> with the backoff
  schedule, when every attempt fails at once with a \<open>RetryError\<close>, nine attempts are made,
  at 0, 10, 50, 210, 850, 3410, 13650, 54610 and 218450 ms: the delays are 10, 40, 160,
  640, 2560, 10240, 40960 and 163840 ms. No delay is the spacing of one second, since the
  exponential schedule is never done and \<open>andThenEither\<close> never reaches
  \<open>Schedule.spaced\<close>; and the last attempt starts 218450 ms after the first, past the
  minute.
\<close>

theorem backoff_run:
  "retry retry_policy (\<lambda>n. (0, Inl RetryError)) 0 (initial retry_policy) 0 =
     Some (Inl RetryError :: error + json option,
       [0, 10, 50, 210, 850, 3410, 13650, 54610, 218450], 218450)"
  by (simp add: initial_retry_policy retry_failing_at_once interval_start_def)

text \<open>
  C5. The code does not do what the claim says. When the polling URL would answer with
  the status \<open>pending\<close>, which is neither polling shape, the pipeline does not fail with
  the error of a decoding: no poll request is sent and no answer is decoded; the
  pipeline dies with a \<open>TypeError\<close>, a defect, 500 ms after the transport.
\<close>

theorem undecodable_poll_dies:
  "PollingResponse (JObject [(''status'', JString ''pending'')]) = Inl ParseError \<and>
   fst (uploadFile ''ep'' photo_opts photo_presigned garbled 0) = Die TypeError \<and>
   poll_requests (fst (snd (uploadFile ''ep'' photo_opts photo_presigned garbled 0))) = []"
  by (simp add: photo_run garbled_def poll_requests_def PollingResponse_def)

text \<open>
  C6. The code does not do what the claim says. For a batch whose second descriptor
  matches no file, the call does not fail with \<open>NOT_FOUND\<close>: it dies with a \<open>TypeError\<close>
  while it builds the request for the descriptors. The pipeline of the unmatched
  descriptor, run on its own, does fail with \<open>NOT_FOUND\<close> after the console error, with
  neither a transport nor a poll.
\<close>

theorem unmatched_descriptor_dies:
  "DANGEROUS__uploadFiles (descriptors [photo_presigned, stray_presigned]) ''ep'' both_opts
     (batch_world 2) 0 = (Die TypeError, [(0, LogError)], 0) \<and>
   uploadFile ''ep'' both_opts stray_presigned (done_after 0) 500 =
     (Failure (UploadThingError ''NOT_FOUND'' ''No file found for presigned URL''),
      [(500, ConsoleError)], 500)"
  by (simp add: DANGEROUS__uploadFiles_dies uploadFile_not_found [OF found_in_both(3)])





text \<open>
  C10. For a descriptor whose file is found, the events of the pipeline begin with the call
  of \<open>onUploadBegin\<close> on the file's name, when the callback is supplied, followed by the
  start of one transport: the multipart one when the descriptor has the field \<open>urls\<close>
  (the shape \<open>MPU\<close>), the presigned POST otherwise; only poll requests follow.
\<close>

theorem transport_by_urls:
  assumes "find (\<lambda>f. f_name f = fileName presigned) (files opts) = Some file"
  shows "(has_urls presigned \<longleftrightarrow> (\<exists>us uid cs cc. shape presigned = MPU us uid cs cc)) \<and>
    (\<exists>rest. fst (snd (uploadFile slug opts presigned w now)) =
       (if onUploadBegin opts then [(now, OnUploadBegin (f_name file))] else []) @
       [(now, if has_urls presigned then MultipartUpload (key presigned)
              else PresignedPost (key presigned))] @ rest \<and>
       list_all (\<lambda>(t, e). is_poll e) rest)"
proof -
  have "has_urls presigned \<longleftrightarrow> (\<exists>us uid cs cc. shape presigned = MPU us uid cs cc)"
    by (cases "shape presigned") (simp_all add: has_urls_def)
  then show ?thesis
    by (simp add: uploadFile_found [OF assms])
qed

theorem transport_by_urls_witness:
  "(has_urls photo_presigned \<longleftrightarrow> (\<exists>us uid cs cc. shape photo_presigned = MPU us uid cs cc)) \<and>
   (\<exists>rest. fst (snd (uploadFile ''ep'' photo_opts photo_presigned (done_after 8) 0)) =
      [(0, OnUploadBegin ''a.png''), (0, PresignedPost ''k1'')] @ rest \<and>
      list_all (\<lambda>(t, e). is_poll e) rest)"
  using transport_by_urls [OF photo_found, of "''ep''" "done_after 8" 0]
  by (simp add: photo_opts_def photo_def has_urls_def photo_presigned_def)

end
